theory Spec2Isabelle
  imports Complex_Main "HOL-Library.AList" "HOL-Library.Sublist"
begin

section \<open>Python values\<close>

text \<open>
  The program is Python. A \<open>str\<close> is modelled as a \<open>string\<close>, one \<open>char\<close> per code
  point (code points below 256). The values that travel through the program (decoded
  JSON, the fields of an input model) are the values of \<open>pyval\<close>. A float is kept by the
  text that \<open>repr\<close> gives for it: no function of the program computes with floats.
\<close>

datatype pyval =
    PNone
  | PBool bool
  | PInt int
  | PFloat string
  | PStr string
  | PList "pyval list"
  | PDict "(string \<times> pyval) list"

text \<open>Errors are values: the exceptions that the modelled code can raise.\<close>

datatype py_error =
    TypeError
  | AttributeError
  | KeyError
  | ValueError
  | ValidationError
  | PydanticUserError
  | OSError string

text \<open>Truthiness, as \<open>bool(v)\<close>, \<open>if v\<close> and \<open>v or w\<close> read it.\<close>

fun truthy :: "pyval \<Rightarrow> bool" where
  "truthy PNone = False"
| "truthy (PBool b) = b"
| "truthy (PInt i) = (i \<noteq> 0)"
| "truthy (PFloat s) = (s \<noteq> ''0.0'' \<and> s \<noteq> ''-0.0'')"
| "truthy (PStr s) = (s \<noteq> [])"
| "truthy (PList xs) = (xs \<noteq> [])"
| "truthy (PDict kvs) = (kvs \<noteq> [])"

text \<open>\<open>d.get(k)\<close> and \<open>d.get(k, default)\<close> on a dict given by its items.\<close>

definition dict_get :: "(string \<rightharpoonup> pyval) \<Rightarrow> string \<Rightarrow> pyval" where
  "dict_get d k = (case d k of None \<Rightarrow> PNone | Some v \<Rightarrow> v)"

definition get_or :: "(string \<times> pyval) list \<Rightarrow> string \<Rightarrow> pyval \<Rightarrow> pyval" where
  "get_or kvs k dflt = (case map_of kvs k of None \<Rightarrow> dflt | Some v \<Rightarrow> v)"

subsection \<open>\<open>str\<close> and \<open>repr\<close>\<close>

definition digit_char :: "nat \<Rightarrow> char" where
  "digit_char n = ''0123456789abcdef'' ! n"

function str_nat :: "nat \<Rightarrow> string" where
  "str_nat n = (if n < 10 then [digit_char n] else str_nat (n div 10) @ [digit_char (n mod 10)])"
  by pat_completeness auto
termination
  by (relation "measure id") auto

declare str_nat.simps [simp del]

definition str_int :: "int \<Rightarrow> string" where
  "str_int i = (if i < 0 then ''-'' @ str_nat (nat (- i)) else str_nat (nat i))"

text \<open>\<open>sep.join(xs)\<close>.\<close>

fun join :: "string \<Rightarrow> string list \<Rightarrow> string" where
  "join sep [] = []"
| "join sep [x] = x"
| "join sep (x # y # ys) = x @ sep @ join sep (y # ys)"

text \<open>
  \<open>repr\<close> of a \<open>str\<close>: double quotes when the text has a single quote and no double
  quote, single quotes otherwise; the quote, the backslash and the characters that are
  not printable are escaped.
\<close>

definition repr_char :: "char \<Rightarrow> char \<Rightarrow> string" where
  "repr_char q c =
     (let n = (of_char c :: nat) in
      if c = q \<or> c = CHR 0x5C then [CHR 0x5C, c]
      else if n = 9 then [CHR 0x5C, CHR ''t'']
      else if n = 10 then [CHR 0x5C, CHR ''n'']
      else if n = 13 then [CHR 0x5C, CHR ''r'']
      else if n < 32 \<or> (127 \<le> n \<and> n \<le> 160) \<or> n = 173
        then [CHR 0x5C, CHR ''x'', digit_char (n div 16), digit_char (n mod 16)]
      else [c])"

definition repr_str :: "string \<Rightarrow> string" where
  "repr_str s =
     (let q = (if CHR 0x27 \<in> set s \<and> CHR 0x22 \<notin> set s then CHR 0x22 else CHR 0x27)
      in [q] @ concat (map (repr_char q) s) @ [q])"

fun py_repr :: "pyval \<Rightarrow> string" where
  "py_repr PNone = ''None''"
| "py_repr (PBool b) = (if b then ''True'' else ''False'')"
| "py_repr (PInt i) = str_int i"
| "py_repr (PFloat s) = s"
| "py_repr (PStr s) = repr_str s"
| "py_repr (PList xs) = ''['' @ join '', '' (map py_repr xs) @ '']''"
| "py_repr (PDict kvs) =
     ''{'' @ join '', '' (map (\<lambda>kv. repr_str (fst kv) @ '': '' @ py_repr (snd kv)) kvs) @ ''}''"

definition py_str :: "pyval \<Rightarrow> string" where
  "py_str v = (case v of PStr s \<Rightarrow> s | _ \<Rightarrow> py_repr v)"

subsection \<open>\<open>str.replace\<close>\<close>

text \<open>
  \<open>s.replace(old, new)\<close> replaces the occurrences of \<open>old\<close> from left to right, the
  search resuming after each replaced occurrence. With an empty \<open>old\<close>, \<open>new\<close> is put
  before every character and at the end.
\<close>

function replace_from :: "string \<Rightarrow> string \<Rightarrow> string \<Rightarrow> string" where
  "replace_from s old new =
     (if old = [] \<or> s = [] then s
      else if prefix old s then new @ replace_from (drop (length old) s) old new
      else hd s # replace_from (tl s) old new)"
  by pat_completeness auto
termination
  by (relation "measure (\<lambda>(s, old, new). length s)") auto

declare replace_from.simps [simp del]

definition replace :: "string \<Rightarrow> string \<Rightarrow> string \<Rightarrow> string" where
  "replace s old new =
     (if old = [] then new @ concat (map (\<lambda>c. c # new) s) else replace_from s old new)"

section \<open>The path parameter handler (utils/path_handler.py)\<close>

record PathParameter =
  name :: string
  original_format :: string
  position :: nat

text \<open>The character class \<open>[a-zA-Z0-9_]\<close> of the patterns.\<close>

definition name_char :: "char \<Rightarrow> bool" where
  "name_char c \<longleftrightarrow>
     c \<in> set ''abcdefghijklmnopqrstuvwxyzABCDEFGHIJKLMNOPQRSTUVWXYZ0123456789_''"

text \<open>
  Every regular expression of \<open>PARAMETER_PATTERNS\<close> is a literal, the group
  \<open>([a-zA-Z0-9_]+)\<close> and a literal; a pattern is kept as the two literals, in the order of
  the source: \<open>{name}\<close>, \<open>:name\<close>, \<open>{{name}}\<close>, \<open>${name}\<close>, \<open><name>\<close>. (The second
  component of the source's pairs, a format template, is read nowhere.)
\<close>

definition PARAMETER_PATTERNS :: "(string \<times> string) list" where
  "PARAMETER_PATTERNS =
     [(''{'', ''}''), ('':'', ''''), (''{{'', ''}}''), (''${'', ''}''), (''<'', ''>'')]"

text \<open>
  A match of a pattern at the very start of \<open>s\<close>: group 1 and group 0. The group is
  greedy; giving characters back never helps, since a closing literal starts with no
  name character.
\<close>

definition match_at :: "string \<times> string \<Rightarrow> string \<Rightarrow> (string \<times> string) option" where
  "match_at pat s =
     (let rest = drop (length (fst pat)) s;
          nm = takeWhile name_char rest
      in if prefix (fst pat) s \<and> nm \<noteq> [] \<and> prefix (snd pat) (dropWhile name_char rest)
         then Some (nm, fst pat @ nm @ snd pat) else None)"

lemma match_at_length:
  assumes "match_at pat s = Some (nm, orig)"
  shows "0 < length orig"
  using assms by (auto simp: match_at_def Let_def split: if_splits)

text \<open>
  \<open>re.finditer\<close>: the matches from left to right, none overlapping another; after a
  match the search resumes at its end. \<open>pos\<close> is the offset of \<open>s\<close> in the whole text.
  A match is kept as the token made of it: \<open>group(1)\<close>, \<open>group(0)\<close> and \<open>start()\<close>.
\<close>

function finditer :: "string \<times> string \<Rightarrow> nat \<Rightarrow> string \<Rightarrow> PathParameter list" where
  "finditer pat pos s =
     (if s = [] then []
      else case match_at pat s of
        None \<Rightarrow> finditer pat (pos + 1) (tl s)
      | Some (nm, orig) \<Rightarrow>
          \<lparr>name = nm, original_format = orig, position = pos\<rparr>
            # finditer pat (pos + length orig) (drop (length orig) s))"
  by pat_completeness auto
termination
  by (relation "measure (\<lambda>(pat, pos, s). length s)") (auto dest: match_at_length)

declare finditer.simps [simp del]

text \<open>The body of the two loops of \<open>extract_parameters\<close>, on one match.\<close>

definition add_match ::
  "PathParameter list \<times> nat set \<Rightarrow> PathParameter \<Rightarrow> PathParameter list \<times> nat set" where
  "add_match st m =
     (if position m \<notin> snd st then (fst st @ [m], insert (position m) (snd st)) else st)"

definition collect_parameters :: "string \<Rightarrow> PathParameter list \<times> nat set" where
  "collect_parameters path_template =
     foldl (\<lambda>st pat. foldl add_match st (finditer pat 0 path_template)) ([], {})
       PARAMETER_PATTERNS"

definition extract_parameters :: "string \<Rightarrow> PathParameter list" where
  "extract_parameters path_template = sort_key position (fst (collect_parameters path_template))"

text \<open>\<open>_clean_name\<close> of utils/spec_parser.py: \<open>re.match(r"^\d", s)\<close>.\<close>

definition clean_name :: "string \<Rightarrow> string" where
  "clean_name s = (if s \<noteq> [] \<and> hd s \<in> set ''0123456789'' then ''param_'' @ s else s)"

definition lookup_key :: "bool \<Rightarrow> PathParameter \<Rightarrow> string" where
  "lookup_key snake_case_keys param =
     (if snake_case_keys then clean_name (name param) else name param)"

text \<open>The body of the loop of \<open>substitute_parameters\<close>, on one token.\<close>

definition substitute_step ::
  "(string \<rightharpoonup> pyval) \<Rightarrow> bool \<Rightarrow> string \<times> string list \<Rightarrow> PathParameter
     \<Rightarrow> string \<times> string list" where
  "substitute_step vals snake_case_keys st param =
     (let v = dict_get vals (lookup_key snake_case_keys param)
      in if v \<noteq> PNone
         then (replace (fst st) (original_format param) (py_str v), snd st)
         else (fst st, snd st @ [name param]))"

definition substitute_parameters ::
  "string \<Rightarrow> (string \<rightharpoonup> pyval) \<Rightarrow> bool \<Rightarrow> string \<times> string list" where
  "substitute_parameters path_template vals snake_case_keys =
     foldl (substitute_step vals snake_case_keys) (path_template, [])
       (extract_parameters path_template)"

definition validate_path :: "string \<Rightarrow> bool \<times> string list" where
  "validate_path path =
     (let remaining = extract_parameters path
      in if remaining \<noteq> [] then (False, map name remaining) else (True, []))"

text \<open>Whether the loop of \<open>substitute_parameters\<close> finds a value for a token.\<close>

definition has_value :: "(string \<rightharpoonup> pyval) \<Rightarrow> bool \<Rightarrow> PathParameter \<Rightarrow> bool" where
  "has_value vals snake_case_keys param \<longleftrightarrow>
     dict_get vals (lookup_key snake_case_keys param) \<noteq> PNone"

section \<open>The specification parser (utils/spec_parser.py)\<close>

subsection \<open>Dynamic operations of Python, with the exceptions they raise\<close>

fun seq :: "py_error + 'a \<Rightarrow> ('a \<Rightarrow> py_error + 'b) \<Rightarrow> py_error + 'b" where
  "seq (Inl e) f = Inl e"
| "seq (Inr x) f = f x"

text \<open>A loop whose body may raise: the first exception ends it.\<close>

fun for_each :: "('a \<Rightarrow> py_error + 'b) \<Rightarrow> 'a list \<Rightarrow> py_error + 'b list" where
  "for_each f [] = Inr []"
| "for_each f (x # xs) = seq (f x) (\<lambda>y. seq (for_each f xs) (\<lambda>ys. Inr (y # ys)))"

text \<open>\<open>v.get(k, default)\<close>: only a dict has the attribute.\<close>

fun py_get :: "pyval \<Rightarrow> string \<Rightarrow> pyval \<Rightarrow> py_error + pyval" where
  "py_get (PDict kvs) k dflt = Inr (get_or kvs k dflt)"
| "py_get v k dflt = Inl AttributeError"

text \<open>\<open>v.items()\<close>.\<close>

fun py_items :: "pyval \<Rightarrow> py_error + (string \<times> pyval) list" where
  "py_items (PDict kvs) = Inr kvs"
| "py_items v = Inl AttributeError"

text \<open>\<open>for p in v\<close>: a list gives its elements, a dict its keys, a str its characters.\<close>

fun py_iter :: "pyval \<Rightarrow> py_error + pyval list" where
  "py_iter (PList xs) = Inr xs"
| "py_iter (PDict kvs) = Inr (map (\<lambda>kv. PStr (fst kv)) kvs)"
| "py_iter (PStr s) = Inr (map (\<lambda>c. PStr [c]) s)"
| "py_iter v = Inl TypeError"

text \<open>\<open>k in v\<close> for a str \<open>k\<close>: a key of a dict, an element of a list, a substring of a str.\<close>

fun py_contains :: "string \<Rightarrow> pyval \<Rightarrow> py_error + bool" where
  "py_contains k (PDict kvs) = Inr (k \<in> set (map fst kvs))"
| "py_contains k (PList xs) = Inr (PStr k \<in> set xs)"
| "py_contains k (PStr s) = Inr (sublist k s)"
| "py_contains k v = Inl TypeError"

text \<open>\<open>v[k]\<close> for a str \<open>k\<close>.\<close>

fun py_index :: "pyval \<Rightarrow> string \<Rightarrow> py_error + pyval" where
  "py_index (PDict kvs) k = (case map_of kvs k of None \<Rightarrow> Inl KeyError | Some v \<Rightarrow> Inr v)"
| "py_index v k = Inl TypeError"

text \<open>\<open>v.split("/")[-1]\<close>: the text after the last slash.\<close>

fun py_last_segment :: "pyval \<Rightarrow> py_error + string" where
  "py_last_segment (PStr s) = Inr (rev (takeWhile (\<lambda>c. c \<noteq> CHR ''/'') (rev s)))"
| "py_last_segment v = Inl AttributeError"

text \<open>\<open>v.strip()\<close>: the white space of \<open>str.strip\<close> among the code points below 256.\<close>

definition whitespace :: "char \<Rightarrow> bool" where
  "whitespace c \<longleftrightarrow> (of_char c :: nat) \<in> {9, 10, 11, 12, 13, 28, 29, 30, 31, 32, 133, 160}"

definition strip :: "string \<Rightarrow> string" where
  "strip s = rev (dropWhile whitespace (rev (dropWhile whitespace s)))"

fun py_strip :: "pyval \<Rightarrow> py_error + string" where
  "py_strip (PStr s) = Inr (strip s)"
| "py_strip v = Inl AttributeError"

text \<open>
  \<open>s.upper()\<close> on the letters of ASCII. (On other characters Python's result is never one
  of the five method names, so the filter of \<open>iter_operations\<close> is not affected.)
\<close>

definition upper_char :: "char \<Rightarrow> char" where
  "upper_char c =
     (let n = (of_char c :: nat) in if 97 \<le> n \<and> n \<le> 122 then char_of (n - 32) else c)"

definition upper :: "string \<Rightarrow> string" where
  "upper s = map upper_char s"

text \<open>\<open>a or b\<close>.\<close>

definition py_or :: "pyval \<Rightarrow> pyval \<Rightarrow> pyval" where
  "py_or a b = (if truthy a then a else b)"

subsection \<open>The operation model\<close>

record Operation =
  op_name :: string
  op_method :: string
  path_template :: string
  tag_path :: "string list"
  description :: string
  parameters :: "(string \<times> pyval) list list"
  request_body_schema :: "(string \<times> pyval) list option"

text \<open>
  The validation that constructing an \<open>Operation\<close> performs on the fields whose values
  come from the specification: \<open>name: str\<close>, \<open>tag_path: List[str]\<close> and
  \<open>request_body_schema: Optional[Dict[str, Any]]\<close>.
\<close>

fun as_str :: "pyval \<Rightarrow> py_error + string" where
  "as_str (PStr s) = Inr s"
| "as_str v = Inl ValidationError"

fun as_str_list :: "pyval \<Rightarrow> py_error + string list" where
  "as_str_list (PList xs) = for_each as_str xs"
| "as_str_list v = Inl ValidationError"

fun as_optional_dict :: "pyval \<Rightarrow> py_error + (string \<times> pyval) list option" where
  "as_optional_dict PNone = Inr None"
| "as_optional_dict (PDict kvs) = Inr (Some kvs)"
| "as_optional_dict v = Inl ValidationError"

subsection \<open>\<open>OpenAPIExtractor.iter_operations\<close>\<close>

text \<open>One parameter entry of an operation: a reference is resolved, then the five keys are read.\<close>

definition resolve_parameter :: "pyval \<Rightarrow> pyval \<Rightarrow> py_error + pyval" where
  "resolve_parameter global_params p =
     seq (py_contains ''$ref'' p) (\<lambda>is_ref.
       if is_ref
       then seq (py_index p ''$ref'') (\<lambda>target.
              seq (py_last_segment target) (\<lambda>ref. py_get global_params ref (PDict [])))
       else Inr p)"

definition parameter_descriptor :: "pyval \<Rightarrow> pyval \<Rightarrow> py_error + (string \<times> pyval) list" where
  "parameter_descriptor global_params p0 =
     seq (resolve_parameter global_params p0) (\<lambda>p.
     seq (py_get p ''name'' PNone) (\<lambda>nm.
     seq (py_get p ''in'' PNone) (\<lambda>loc.
     seq (py_get p ''required'' (PBool False)) (\<lambda>req.
     seq (py_get p ''schema'' (PDict [])) (\<lambda>sch.
     seq (py_get p ''description'' (PStr [])) (\<lambda>des.
       Inr [(''name'', nm), (''in'', loc), (''required'', PBool (truthy req)),
            (''schema'', sch), (''description'', des)]))))))"

definition body_schema_of :: "pyval \<Rightarrow> py_error + pyval" where
  "body_schema_of rb =
     (if truthy rb
      then seq (py_contains ''$ref'' rb) (\<lambda>unresolved.
           seq (py_get rb ''content'' (PDict [])) (\<lambda>content.
           seq (py_contains ''application/json'' content) (\<lambda>has_json.
             if has_json
             then seq (py_index content ''application/json'') (\<lambda>media.
                    py_get media ''schema'' PNone)
             else Inr PNone)))
      else Inr PNone)"

definition HTTP_METHODS :: "string list" where
  "HTTP_METHODS = [''GET'', ''POST'', ''PUT'', ''PATCH'', ''DELETE'']"

text \<open>The body of the inner loop for one method entry that passes the filter.\<close>

definition extract_operation :: "pyval \<Rightarrow> string \<Rightarrow> string \<Rightarrow> pyval \<Rightarrow> py_error + Operation" where
  "extract_operation global_params path meth op =
     seq (py_get op ''operationId'' PNone) (\<lambda>oid.
     seq (py_get op ''tags'' PNone) (\<lambda>tags0.
     seq (py_get op ''description'' PNone) (\<lambda>d0.
     seq (py_get op ''summary'' PNone) (\<lambda>s0.
     seq (py_strip (py_or (py_or d0 s0) (PStr []))) (\<lambda>descr.
     seq (py_get op ''parameters'' (PList [])) (\<lambda>plist.
     seq (py_iter plist) (\<lambda>ps.
     seq (for_each (parameter_descriptor global_params) ps) (\<lambda>params.
     seq (py_get op ''requestBody'' PNone) (\<lambda>rb.
     seq (body_schema_of rb) (\<lambda>body_schema.
     seq (as_str (py_or oid (PStr (meth @ ''_'' @ path)))) (\<lambda>op_id.
     seq (as_str_list (py_or tags0 (PList []))) (\<lambda>tags.
     seq (as_optional_dict body_schema) (\<lambda>body.
       Inr \<lparr>op_name = op_id, op_method = upper meth, path_template = path,
            tag_path = tags, description = descr, parameters = params,
            request_body_schema = body\<rparr>)))))))))))))"

definition path_operations :: "pyval \<Rightarrow> string \<times> pyval \<Rightarrow> py_error + Operation list" where
  "path_operations global_params entry =
     seq (py_items (snd entry)) (\<lambda>methods.
       for_each (\<lambda>m. extract_operation global_params (fst entry) (fst m) (snd m))
         (filter (\<lambda>m. upper (fst m) \<in> set HTTP_METHODS) methods))"

definition iter_operations :: "pyval \<Rightarrow> py_error + Operation list" where
  "iter_operations oas =
     seq (py_get oas ''paths'' (PDict [])) (\<lambda>paths0.
     seq (py_get oas ''components'' (PDict [])) (\<lambda>components.
     seq (py_get components ''parameters'' (PDict [])) (\<lambda>global_params.
     seq (py_items (py_or paths0 (PDict []))) (\<lambda>paths.
     seq (for_each (path_operations global_params) paths) (\<lambda>opss. Inr (concat opss))))))"

subsection \<open>\<open>_clean_name\<close> and \<open>_build_input_model_from_operation\<close>\<close>

text \<open>\<open>_clean_name\<close> on any value: \<open>re.match\<close> raises on what is not a str.\<close>

fun py_clean_name :: "pyval \<Rightarrow> py_error + string" where
  "py_clean_name (PStr s) = Inr (clean_name s)"
| "py_clean_name v = Inl TypeError"

datatype pytype =
    TStr
  | TInt
  | TFloat
  | TBool
  | TListAny
  | TDictStrAny
  | TDictStrStr
  | TOptional pytype

text \<open>\<open>Field(default=..., description=...)\<close>: the default \<open>...\<close> marks the field required.\<close>

datatype field_default = Required | Default pyval

record field_info =
  field_type :: pytype
  field_default :: field_default
  field_description :: string

definition basic_type :: "pyval \<Rightarrow> pytype" where
  "basic_type t =
     (if t = PStr ''integer'' then TInt
      else if t = PStr ''number'' then TFloat
      else if t = PStr ''boolean'' then TBool
      else if t = PStr ''array'' then TListAny
      else if t = PStr ''object'' then TDictStrAny
      else TStr)"

text \<open>The body of the loop over \<open>op.parameters\<close>: the key and the field of one parameter.\<close>

definition parameter_field :: "(string \<times> pyval) list \<Rightarrow> py_error + string \<times> field_info" where
  "parameter_field p =
     (let nm = get_or p ''name'' PNone;
          loc = get_or p ''in'' PNone;
          required = truthy (get_or p ''required'' PNone);
          schema = py_or (get_or p ''schema'' PNone) (PDict []);
          desc = py_or (get_or p ''description'' PNone) (PStr [])
      in seq (py_get schema ''type'' PNone) (\<lambda>t.
         seq (py_clean_name nm) (\<lambda>key.
           Inr (key,
             \<lparr>field_type = (if required then basic_type t else TOptional (basic_type t)),
              field_default = (if required then Required else Default PNone),
              field_description = strip (''['' @ py_str loc @ ''] '' @ py_str desc)\<rparr>))))"

definition body_field :: field_info where
  "body_field =
     \<lparr>field_type = TOptional TDictStrAny, field_default = Default PNone,
      field_description = ''JSON request body''\<rparr>"

definition extra_headers_field :: field_info where
  "extra_headers_field =
     \<lparr>field_type = TOptional TDictStrStr, field_default = Default PNone,
      field_description = ''Optional extra headers''\<rparr>"

definition include_all_field :: field_info where
  "include_all_field =
     \<lparr>field_type = TOptional TBool, field_default = Default (PBool False),
      field_description = ''If True, fetch all pages/cursor results.''\<rparr>"

definition param_names :: "Operation \<Rightarrow> pyval set" where
  "param_names op = set (map (\<lambda>p. get_or p ''name'' PNone) (parameters op))"

text \<open>The test \<open>{"page", "per_page"} & param_names or ("cursor" in param_names)\<close>.\<close>

definition pagination_hint :: "Operation \<Rightarrow> bool" where
  "pagination_hint op \<longleftrightarrow>
     {PStr ''page'', PStr ''per_page''} \<inter> param_names op \<noteq> {} \<or> PStr ''cursor'' \<in> param_names op"

text \<open>
  \<open>create_model\<close> belongs to the validation library and is a parameter here: for a
  model name and the \<open>fields\<close> dict it is handed, the exception it raises, if any.
  (It refuses, for one, a field whose name has a leading underscore:
  \<open>refuses_underscore\<close> is that behaviour.)
\<close>

type_synonym model_check = "string \<Rightarrow> (string \<times> field_info) list \<Rightarrow> py_error option"

definition refuses_underscore :: model_check where
  "refuses_underscore model_name flds =
     (if \<exists>k \<in> set (map fst flds). k \<noteq> [] \<and> hd k = CHR ''_''
      then Some PydanticUserError else None)"

text \<open>
  The result is the name and the \<open>fields\<close> dict handed to \<open>create_model\<close>, when that
  call raises nothing; a dict is its items in insertion order (\<open>AList.update\<close>: a key
  already present keeps its place and takes the new value).
\<close>

definition build_input_model_from_operation ::
  "model_check \<Rightarrow> Operation \<Rightarrow> py_error + string \<times> (string \<times> field_info) list" where
  "build_input_model_from_operation create_model op =
     seq (for_each parameter_field (parameters op)) (\<lambda>entries.
       let fields0 = foldl (\<lambda>fs e. AList.update (fst e) (snd e) fs) [] entries;
           fields1 = (if request_body_schema op \<noteq> None
                      then AList.update ''body'' body_field fields0 else fields0);
           fields2 = AList.update ''extra_headers'' extra_headers_field fields1;
           fields3 = (if pagination_hint op
                      then AList.update ''include_all'' include_all_field fields2 else fields2);
           model_name = clean_name (op_name op) @ ''_Input''
       in case create_model model_name fields3 of
            Some e \<Rightarrow> Inl e
          | None \<Rightarrow> Inr (model_name, fields3))"

section \<open>The toolset (toolset.py)\<close>

subsection \<open>The registry\<close>

record toolset =
  operations_by_name :: "(string \<times> Operation) list"
  registry :: "(string \<times> string) list"

definition empty_toolset :: toolset where
  "empty_toolset = \<lparr>operations_by_name = [], registry = []\<rparr>"

text \<open>The body of the loop of \<open>_load_operations\<close>.\<close>

definition register_operation :: "toolset \<Rightarrow> Operation \<Rightarrow> toolset" where
  "register_operation ts op =
     (let tool_name = clean_name (op_name op)
      in \<lparr>operations_by_name = AList.update tool_name op (operations_by_name ts),
          registry = AList.update tool_name
            (if description op \<noteq> [] then description op
             else op_method op @ '' '' @ path_template op)
            (registry ts)\<rparr>)"

text \<open>
  \<open>_load_operations\<close>. The file is read outside the model: \<open>loaded\<close> is what
  \<open>_load_spec_file\<close> returns or the exception it raises. Every exception of the
  \<open>try\<close> block reaches the handler, which resets both dicts.
\<close>

definition load_operations :: "toolset \<Rightarrow> py_error + pyval \<Rightarrow> toolset" where
  "load_operations ts loaded =
     (case seq loaded iter_operations of
        Inl e \<Rightarrow> ts\<lparr>operations_by_name := [], registry := []\<rparr>
      | Inr oas_ops \<Rightarrow> foldl register_operation ts oas_ops)"

text \<open>\<open>AvathonToolset()\<close>: \<open>__init__\<close>.\<close>

definition new_toolset :: "py_error + pyval \<Rightarrow> toolset" where
  "new_toolset loaded = load_operations empty_toolset loaded"

text \<open>The lookup \<open>self._operations_by_name.get(tool_name)\<close>.\<close>

definition get_operation :: "toolset \<Rightarrow> string \<Rightarrow> Operation option" where
  "get_operation ts tool_name = map_of (operations_by_name ts) tool_name"

subsection \<open>The tool function\<close>

text \<open>
  The transport collaborator is \<open>client.request\<close>: it is given a request and returns a
  response or raises. A response is read through \<open>status_code\<close>, \<open>text\<close>, \<open>json()\<close>
  (\<open>json_result\<close>: \<open>None\<close> when the call raises) and \<open>raise_for_status()\<close>.
\<close>

record request =
  req_method :: string
  req_path :: string
  req_params :: "(string \<times> pyval) list option"
  req_json_body :: pyval
  req_headers :: "(string \<times> pyval) list option"

record response =
  status_code :: nat
  json_result :: "pyval option"
  text_body :: string

type_synonym transport = "request \<Rightarrow> py_error + response"

datatype http_exception = HTTPStatusError response | OtherHTTPError py_error

text \<open>
  \<open>response.raise_for_status()\<close> of the HTTP library: an \<open>HTTPStatusError\<close> carrying the
  response unless the status is a 2xx one.
\<close>

definition raise_for_status :: "response \<Rightarrow> http_exception option" where
  "raise_for_status r =
     (if 200 \<le> status_code r \<and> status_code r < 300 then None else Some (HTTPStatusError r))"

text \<open>
  Every failure of the tool function is a \<open>ModelRetry\<close>; one constructor per \<open>raise\<close> of
  the source, with the values its message is built from.
\<close>

datatype failure =
    MissingPathParameter "string list"
  | UnresolvedPathTemplate string "string list"
  | AuthenticationFailure
  | AuthorizationFailure string
  | NotFound string
  | InvalidRequest pyval string
  | RemoteUnavailable nat
  | ApiError nat string
  | HttpError string py_error
  | ToolExecutionFailed string py_error

text \<open>
  The text of the \<open>ModelRetry\<close>. \<open>exc_text\<close> stands for \<open>str(e)\<close> on an exception, which
  the interpreter and the libraries fix.
\<close>

fun retry_message :: "(py_error \<Rightarrow> string) \<Rightarrow> failure \<Rightarrow> string" where
  "retry_message exc_text (MissingPathParameter missing) =
     ''Missing required path parameters: '' @ join '', '' missing
       @ ''. Please provide values for: '' @ py_str (PList (map PStr missing))"
| "retry_message exc_text (UnresolvedPathTemplate nm remaining) =
     ''Failed to substitute all parameters in '' @ nm @ ''. Unresolved: ''
       @ join '', '' remaining"
| "retry_message exc_text AuthenticationFailure =
     ''Authentication failed (401). Please check your AVATHON_API_KEY.''"
| "retry_message exc_text (AuthorizationFailure nm) =
     ''Access denied (403). You may not have permission for this resource in '' @ nm @ ''.''"
| "retry_message exc_text (NotFound nm) =
     ''Resource not found (404). Please verify the parameters are correct for '' @ nm @ ''.''"
| "retry_message exc_text (InvalidRequest error_msg nm) =
     ''Invalid request (400): '' @ py_str error_msg
       @ ''. Please check your parameters for '' @ nm @ ''.''"
| "retry_message exc_text (RemoteUnavailable status) =
     ''Avathon server error ('' @ str_nat status
       @ ''). The service may be temporarily unavailable.''"
| "retry_message exc_text (ApiError status nm) =
     ''API error ('' @ str_nat status @ '') for '' @ nm @ ''. Please check your request.''"
| "retry_message exc_text (HttpError nm e) = ''HTTP error for '' @ nm @ '': '' @ exc_text e"
| "retry_message exc_text (ToolExecutionFailed nm e) =
     ''Tool execution failed for '' @ nm @ '': '' @ exc_text e
       @ ''. Please check your parameters and try again.''"

text \<open>The failures that the specification calls unclassified: no branch names their cause.\<close>

fun unclassified :: "failure \<Rightarrow> bool" where
  "unclassified (ApiError status nm) = True"
| "unclassified (HttpError nm e) = True"
| "unclassified (ToolExecutionFailed nm e) = True"
| "unclassified f = False"

text \<open>The detail of a 400 response: \<open>error_data.get('message', 'Bad request')\<close>, guarded.\<close>

definition bad_request_detail :: "response \<Rightarrow> pyval" where
  "bad_request_detail r =
     (case json_result r of
        Some (PDict kvs) \<Rightarrow> get_or kvs ''message'' (PStr ''Bad request'')
      | _ \<Rightarrow> PStr ''Bad request'')"

text \<open>The handler \<open>except Exception as http_error\<close>.\<close>

fun classify_http_error :: "Operation \<Rightarrow> http_exception \<Rightarrow> failure" where
  "classify_http_error op (HTTPStatusError r) =
     (let status = status_code r in
      if status = 401 then AuthenticationFailure
      else if status = 403 then AuthorizationFailure (op_name op)
      else if status = 404 then NotFound (op_name op)
      else if status = 400 then InvalidRequest (bad_request_detail r) (op_name op)
      else if status \<ge> 500 then RemoteUnavailable status
      else ApiError status (op_name op))"
| "classify_http_error op (OtherHTTPError e) = HttpError (op_name op) e"

text \<open>What a call returns when \<open>raise_for_status\<close> does not raise.\<close>

definition success_value :: "response \<Rightarrow> pyval" where
  "success_value r =
     (case json_result r of
        Some v \<Rightarrow> v
      | None \<Rightarrow> PDict [(''data'', PStr (text_body r)), (''status_code'', PInt (int (status_code r)))])"

text \<open>\<open>input_data.model_dump(exclude_none=True)\<close> on the fields of the input value.\<close>

definition model_dump_exclude_none :: "(string \<times> pyval) list \<Rightarrow> (string \<times> pyval) list" where
  "model_dump_exclude_none input_data = filter (\<lambda>kv. snd kv \<noteq> PNone) input_data"

text \<open>
  The body of the loop that sorts the declared parameters into the query parameters
  and the request headers. \<open>_clean_name\<close> raises on a name that is not a str.
\<close>

definition route_parameter ::
  "(string \<times> pyval) list \<Rightarrow> (string \<times> pyval) list \<times> (string \<times> pyval) list
     \<Rightarrow> (string \<times> pyval) list
     \<Rightarrow> py_error + (string \<times> pyval) list \<times> (string \<times> pyval) list" where
  "route_parameter kwargs st param =
     (case get_or param ''name'' PNone of
        PStr param_name \<Rightarrow>
          (let param_in = get_or param ''in'' PNone
           in case map_of kwargs (clean_name param_name) of
                None \<Rightarrow> Inr st
              | Some v \<Rightarrow>
                  if v \<noteq> PNone
                  then if param_in = PStr ''query''
                       then Inr (AList.update param_name v (fst st), snd st)
                       else if param_in = PStr ''header''
                       then Inr (fst st, AList.update param_name (PStr (py_str v)) (snd st))
                       else Inr st
                  else Inr st)
      | _ \<Rightarrow> Inl TypeError)"

fun route_parameters ::
  "(string \<times> pyval) list \<Rightarrow> (string \<times> pyval) list \<times> (string \<times> pyval) list
     \<Rightarrow> (string \<times> pyval) list list
     \<Rightarrow> py_error + (string \<times> pyval) list \<times> (string \<times> pyval) list" where
  "route_parameters kwargs st [] = Inr st"
| "route_parameters kwargs st (p # ps) =
     seq (route_parameter kwargs st p) (\<lambda>st'. route_parameters kwargs st' ps)"

text \<open>
  \<open>request_headers.update(extra_headers)\<close> when \<open>extra_headers\<close> is truthy. The input
  model types the field \<open>Optional[Dict[str, str]]\<close>, so a truthy value is a dict; the
  update of anything else is taken to raise.
\<close>

fun add_extra_headers ::
  "pyval \<Rightarrow> (string \<times> pyval) list \<Rightarrow> py_error + (string \<times> pyval) list" where
  "add_extra_headers (PDict kvs) headers =
     Inr (foldl (\<lambda>h kv. AList.update (fst kv) (snd kv) h) headers kvs)"
| "add_extra_headers v headers = (if truthy v then Inl TypeError else Inr headers)"

text \<open>The request of the dispatch step, from the substituted path and the keyword arguments.\<close>

definition build_request ::
  "Operation \<Rightarrow> string \<Rightarrow> (string \<times> pyval) list \<Rightarrow> py_error + request" where
  "build_request op path kwargs0 =
     (let request_body = get_or kwargs0 ''body'' PNone;
          extra_headers = get_or kwargs0 ''extra_headers'' PNone;
          kwargs = AList.delete ''extra_headers'' (AList.delete ''body'' kwargs0)
      in seq (route_parameters kwargs ([], []) (parameters op)) (\<lambda>routed.
         seq (add_extra_headers extra_headers (snd routed)) (\<lambda>request_headers.
           Inr \<lparr>req_method = op_method op, req_path = path,
                req_params = (if fst routed \<noteq> [] then Some (fst routed) else None),
                req_json_body = request_body,
                req_headers = (if request_headers \<noteq> [] then Some request_headers else None)\<rparr>)))"

text \<open>
  \<open>tool_func\<close>, for the operation \<open>op\<close>. \<open>client\<close> is what \<open>get_avathon_client()\<close>
  returns or raises, \<open>input_data\<close> the fields of the validated input value. The result
  is the outcome and the requests handed to the transport.
\<close>

definition tool_func ::
  "Operation \<Rightarrow> py_error + transport \<Rightarrow> (string \<times> pyval) list
     \<Rightarrow> (failure + pyval) \<times> request list" where
  "tool_func op client input_data =
     (case client of
        Inl e \<Rightarrow> (Inl (ToolExecutionFailed (op_name op) e), [])
      | Inr send \<Rightarrow>
          let kwargs = model_dump_exclude_none input_data;
              substituted = substitute_parameters (path_template op) (map_of kwargs) False;
              path = fst substituted;
              missing = snd substituted
          in if missing \<noteq> [] then (Inl (MissingPathParameter missing), [])
             else if \<not> fst (validate_path path)
               then (Inl (UnresolvedPathTemplate (op_name op) (snd (validate_path path))), [])
             else case build_request op path kwargs of
                    Inl e \<Rightarrow> (Inl (ToolExecutionFailed (op_name op) e), [])
                  | Inr req \<Rightarrow>
                      (case send req of
                         Inl e \<Rightarrow> (Inl (ToolExecutionFailed (op_name op) e), [req])
                       | Inr resp \<Rightarrow>
                           (case raise_for_status resp of
                              None \<Rightarrow> (Inr (success_value resp), [req])
                            | Some http_error \<Rightarrow>
                                (Inl (classify_http_error op http_error), [req]))))"

section \<open>Statement vocabulary and example inputs\<close>

text \<open>
  \<open>spec_entry oas gp path meth entry\<close>: in the specification \<open>oas\<close>, \<open>entry\<close> is the
  operation object under the path \<open>path\<close> and the method key \<open>meth\<close>, the method is one
  of the five that \<open>iter_operations\<close> keeps, and \<open>gp\<close> is the shared parameter table.
\<close>

definition spec_entry :: "pyval \<Rightarrow> pyval \<Rightarrow> string \<Rightarrow> string \<Rightarrow> pyval \<Rightarrow> bool" where
  "spec_entry oas global_params path meth entry \<longleftrightarrow>
     (\<exists>paths0 components paths methods0 methods.
        py_get oas ''paths'' (PDict []) = Inr paths0
      \<and> py_get oas ''components'' (PDict []) = Inr components
      \<and> py_get components ''parameters'' (PDict []) = Inr global_params
      \<and> py_items (py_or paths0 (PDict [])) = Inr paths
      \<and> (path, methods0) \<in> set paths
      \<and> py_items methods0 = Inr methods
      \<and> (meth, entry) \<in> set methods
      \<and> upper meth \<in> set HTTP_METHODS)"

text \<open>
  \<open>copies_parameter gp p0 d\<close>: the descriptor \<open>d\<close> is the copy that \<open>iter_operations\<close>
  makes of the parameter entry \<open>p0\<close>, resolved through \<open>gp\<close> when it is a reference.
\<close>

definition copies_parameter :: "pyval \<Rightarrow> pyval \<Rightarrow> (string \<times> pyval) list \<Rightarrow> bool" where
  "copies_parameter global_params p0 d \<longleftrightarrow>
     (\<exists>kvs. resolve_parameter global_params p0 = Inr (PDict kvs)
        \<and> d = [(''name'', get_or kvs ''name'' PNone),
               (''in'', get_or kvs ''in'' PNone),
               (''required'', PBool (truthy (get_or kvs ''required'' (PBool False)))),
               (''schema'', get_or kvs ''schema'' (PDict [])),
               (''description'', get_or kvs ''description'' (PStr []))])"





text \<open>
  A specification whose path parameter is marked \<open>"required": false\<close>, and the operation
  extracted from it.
\<close>

definition oas_optional_path :: pyval where
  "oas_optional_path =
     PDict [(''paths'', PDict [(''/Plant/{plantId}'', PDict [(''get'', PDict
       [(''operationId'', PStr ''plant''),
        (''parameters'', PList [PDict [(''name'', PStr ''plantId''), (''in'', PStr ''path''),
            (''required'', PBool False),
            (''schema'', PDict [(''type'', PStr ''integer'')]),
            (''description'', PStr ''Plant id'')]])])])])]"

definition op_plant :: Operation where
  "op_plant =
     \<lparr>op_name = ''plant'', op_method = ''GET'', path_template = ''/Plant/{plantId}'',
      tag_path = [], description = [],
      parameters = [[(''name'', PStr ''plantId''), (''in'', PStr ''path''),
        (''required'', PBool False), (''schema'', PDict [(''type'', PStr ''integer'')]),
        (''description'', PStr ''Plant id'')]],
      request_body_schema = None\<rparr>"

text \<open>
  Two entries with different operation identifiers, \<open>123resource\<close> and
  \<open>param_123resource\<close>.
\<close>

definition oas_colliding :: pyval where
  "oas_colliding =
     PDict [(''paths'', PDict
       [(''/a'', PDict [(''get'', PDict [(''operationId'', PStr ''123resource'')])]),
        (''/b'', PDict [(''get'', PDict [(''operationId'', PStr ''param_123resource'')])])])]"

definition op_resource :: "string \<Rightarrow> string \<Rightarrow> Operation" where
  "op_resource nm path =
     \<lparr>op_name = nm, op_method = ''GET'', path_template = path,
      tag_path = [], description = [], parameters = [], request_body_schema = None\<rparr>"

text \<open>An identifier that starts with a digit, and an entry with no identifier.\<close>

definition oas_digit :: pyval where
  "oas_digit =
     PDict [(''paths'', PDict
       [(''/a'', PDict [(''get'', PDict [(''operationId'', PStr ''123resource'')])]),
        (''/b'', PDict [(''post'', PDict [(''summary'', PStr ''Create b'')])])])]"

definition op_create_b :: Operation where
  "op_create_b =
     \<lparr>op_name = ''post_/b'', op_method = ''POST'', path_template = ''/b'',
      tag_path = [], description = ''Create b'', parameters = [], request_body_schema = None\<rparr>"

text \<open>A specification whose second path entry is not a method map.\<close>

definition oas_broken :: pyval where
  "oas_broken =
     PDict [(''paths'', PDict
       [(''/a'', PDict [(''get'', PDict [(''operationId'', PStr ''listA'')])]),
        (''/b'', PStr ''not a method map'')])]"

text \<open>An operation that declares \<open>page\<close> alone, and the fields built for it.\<close>

definition op_paged :: Operation where
  "op_paged =
     \<lparr>op_name = ''alarms'', op_method = ''GET'', path_template = ''/alarms'',
      tag_path = [], description = [],
      parameters = [[(''name'', PStr ''page''), (''in'', PStr ''query''),
        (''required'', PBool False), (''schema'', PDict [(''type'', PStr ''integer'')]),
        (''description'', PStr [])]],
      request_body_schema = None\<rparr>"

definition fields_paged :: "(string \<times> field_info) list" where
  "fields_paged =
     [(''page'', \<lparr>field_type = TOptional TInt, field_default = Default PNone,
                 field_description = ''[query]''\<rparr>),
      (''extra_headers'', extra_headers_field),
      (''include_all'', include_all_field)]"

text \<open>
  Two operations on the template \<open>/items/{id}\<close>. The first declares two path-location
  parameters, \<open>id\<close> and \<open>item_id\<close>, the second of which has no placeholder. The other
  declares \<open>id\<close> for the query and has no path-location parameter.
\<close>

definition op_items :: Operation where
  "op_items =
     \<lparr>op_name = ''items'', op_method = ''GET'', path_template = ''/items/{id}'',
      tag_path = [], description = [],
      parameters =
        [[(''name'', PStr ''id''), (''in'', PStr ''path''), (''required'', PBool True),
          (''schema'', PDict []), (''description'', PStr [])],
         [(''name'', PStr ''item_id''), (''in'', PStr ''path''), (''required'', PBool False),
          (''schema'', PDict []), (''description'', PStr [])]],
      request_body_schema = None\<rparr>"

definition op_items_query :: Operation where
  "op_items_query =
     \<lparr>op_name = ''items'', op_method = ''GET'', path_template = ''/items/{id}'',
      tag_path = [], description = [],
      parameters =
        [[(''name'', PStr ''id''), (''in'', PStr ''query''), (''required'', PBool True),
          (''schema'', PDict []), (''description'', PStr [])]],
      request_body_schema = None\<rparr>"

text \<open>Two transports: one answers every request with status 200, one with status 401.\<close>

definition transport_ok :: transport where
  "transport_ok req = Inr \<lparr>status_code = 200, json_result = Some (PDict []), text_body = ''{}''\<rparr>"

definition transport_401 :: transport where
  "transport_401 req = Inr \<lparr>status_code = 401, json_result = None, text_body = []\<rparr>"


section \<open>Properties of the path parameter handler\<close>

subsection \<open>The tokens of \<open>extract_parameters\<close>\<close>



lemma add_match_positions:
  assumes "distinct (map position (fst st))" and "position ` set (fst st) \<subseteq> snd st"
  shows "distinct (map position (fst (add_match st m)))
       \<and> position ` set (fst (add_match st m)) \<subseteq> snd (add_match st m)"
  using assms by (auto simp: add_match_def)

lemma foldl_add_match_positions:
  "distinct (map position (fst st)) \<Longrightarrow> position ` set (fst st) \<subseteq> snd st
     \<Longrightarrow> distinct (map position (fst (foldl add_match st ms)))
       \<and> position ` set (fst (foldl add_match st ms)) \<subseteq> snd (foldl add_match st ms)"
proof (induction ms arbitrary: st)
  case Nil
  then show ?case by simp
next
  case (Cons m ms)
  from add_match_positions [OF Cons.prems] Cons.IH [of "add_match st m"]
  show ?case by simp
qed

lemma foldl_patterns_positions:
  "distinct (map position (fst st)) \<Longrightarrow> position ` set (fst st) \<subseteq> snd st
     \<Longrightarrow> distinct (map position (fst (foldl (\<lambda>st pat. foldl add_match st (f pat)) st pats)))"
proof (induction pats arbitrary: st)
  case Nil
  then show ?case by simp
next
  case (Cons pat pats)
  from foldl_add_match_positions [OF Cons.prems, of "f pat"]
    Cons.IH [of "foldl add_match st (f pat)"]
  show ?case by simp
qed

lemma distinct_map_insort_key:
  "distinct (map f (insort_key g x xs)) \<longleftrightarrow> f x \<notin> f ` set xs \<and> distinct (map f xs)"
  by (induction xs) (auto simp: set_insort_key)

lemma distinct_map_sort_key:
  "distinct (map f (sort_key g xs)) \<longleftrightarrow> distinct (map f xs)"
  by (induction xs) (simp_all add: distinct_map_insort_key)

text \<open>
  The offsets of the returned tokens are ascending and no two tokens share an offset.
\<close>

lemma extract_parameters_sorted_distinct:
  "sorted (map position (extract_parameters t))
   \<and> distinct (map position (extract_parameters t))"
proof -
  have "distinct (map position (fst (collect_parameters t)))"
    unfolding collect_parameters_def by (rule foldl_patterns_positions) simp_all
  then show ?thesis
    by (simp add: extract_parameters_def distinct_map_sort_key)
qed

subsection \<open>Substitution\<close>

lemma foldl_substitute_step:
  "foldl (substitute_step vals sk) st toks =
     (foldl (\<lambda>path p. replace path (original_format p)
                (py_str (dict_get vals (lookup_key sk p))))
        (fst st) (filter (has_value vals sk) toks),
      snd st @ map name (filter (\<lambda>p. \<not> has_value vals sk p) toks))"
  by (induction toks arbitrary: st) (simp_all add: substitute_step_def has_value_def Let_def)



text \<open>
  Claim C3, as the code has it. The list of missing names holds the name of every
  extracted token for which no value is found (absent or \<open>None\<close>), in offset order and
  once per token; so its elements are exactly the unmapped placeholder names, and a name
  that is unmapped at several offsets is listed once for each of them.
\<close>

theorem substitute_missing_per_token:
  "snd (substitute_parameters t vals sk) =
     map name (filter (\<lambda>p. \<not> has_value vals sk p) (extract_parameters t))
   \<and> set (snd (substitute_parameters t vals sk)) =
     name ` {p \<in> set (extract_parameters t). \<not> has_value vals sk p}"
  by (simp add: substitute_parameters_def foldl_substitute_step)

text \<open>
  Claim C3 as stated fails: in the template \<open>/{a}/{a}\<close> with no value for \<open>a\<close>, the
  name \<open>a\<close> is a placeholder name and is listed twice.
\<close>

theorem substitute_missing_counterexample:
  "''a'' \<in> name ` set (extract_parameters ''/{a}/{a}'')
   \<and> count_list (snd (substitute_parameters ''/{a}/{a}'' Map.empty False)) ''a'' = 2"
  by code_simp






















text \<open>
  Claim C4 at the input \<open>{{name}}\<close>: the one double-brace occurrence is returned as two
  tokens, the double-brace text at offset 0 and the single-brace text inside it at
  offset 1. The offsets differ, so the test on \<open>seen_positions\<close> keeps both. (The rest
  of the claim holds: \<open>extract_parameters_token\<close> and
  \<open>extract_parameters_sorted_distinct\<close>.)
\<close>

theorem extract_double_brace_two_tokens:
  "extract_parameters ''{{name}}'' =
     [\<lparr>name = ''name'', original_format = ''{{name}}'', position = 0\<rparr>,
      \<lparr>name = ''name'', original_format = ''{name}'', position = 1\<rparr>]"
  by code_simp

section \<open>Properties of the extractor, the schema builder and the registry\<close>

lemma seq_Inr_iff: "seq m f = Inr y \<longleftrightarrow> (\<exists>x. m = Inr x \<and> f x = Inr y)"
  by (cases m) simp_all

lemma seq_Inl_iff: "seq m f = Inl e \<longleftrightarrow> m = Inl e \<or> (\<exists>x. m = Inr x \<and> f x = Inl e)"
  by (cases m) simp_all

lemma for_each_Inr_mem:
  "for_each f xs = Inr ys \<Longrightarrow> y \<in> set ys \<Longrightarrow> \<exists>x \<in> set xs. f x = Inr y"
proof (induction xs arbitrary: ys)
  case Nil
  then show ?case by simp
next
  case (Cons x xs)
  from Cons.prems(1) obtain z zs where z: "f x = Inr z" and zs: "for_each f xs = Inr zs"
    and ys: "ys = z # zs"
    by (auto simp: seq_Inr_iff)
  show ?case
  proof (cases "y = z")
    case True
    with z show ?thesis by auto
  next
    case False
    with Cons.prems(2) ys have "y \<in> set zs" by simp
    with Cons.IH [OF zs] show ?thesis by auto
  qed
qed

lemma for_each_list_all2:
  "for_each f xs = Inr ys \<Longrightarrow> list_all2 (\<lambda>x y. f x = Inr y) xs ys"
proof (induction xs arbitrary: ys)
  case Nil
  then show ?case by simp
next
  case (Cons x xs)
  from Cons.prems obtain z zs where "f x = Inr z" "for_each f xs = Inr zs" "ys = z # zs"
    by (auto simp: seq_Inr_iff)
  with Cons.IH show ?case by simp
qed

lemma py_get_Inr: "py_get v k dflt = Inr x \<Longrightarrow> \<exists>kvs. v = PDict kvs \<and> x = get_or kvs k dflt"
  by (cases v) simp_all

lemma as_str_Inr: "as_str v = Inr s \<Longrightarrow> v = PStr s"
  by (cases v) simp_all

lemma iter_operations_provenance:
  assumes "iter_operations oas = Inr ops" and "op \<in> set ops"
  shows "\<exists>gp path meth entry. spec_entry oas gp path meth entry
           \<and> extract_operation gp path meth entry = Inr op"
proof -
  from assms(1) obtain paths0 components gp paths opss where
    a: "py_get oas ''paths'' (PDict []) = Inr paths0"
       "py_get oas ''components'' (PDict []) = Inr components"
       "py_get components ''parameters'' (PDict []) = Inr gp"
       "py_items (py_or paths0 (PDict [])) = Inr paths"
    and fe: "for_each (path_operations gp) paths = Inr opss"
    and ops: "ops = concat opss"
    unfolding iter_operations_def seq_Inr_iff by auto
  from assms(2) ops obtain os where os: "os \<in> set opss" "op \<in> set os" by auto
  from for_each_Inr_mem [OF fe os(1)] obtain e where
    e: "e \<in> set paths" "path_operations gp e = Inr os" by auto
  from e(2) obtain methods where
    m: "py_items (snd e) = Inr methods"
    and fm: "for_each (\<lambda>m. extract_operation gp (fst e) (fst m) (snd m))
               (filter (\<lambda>m. upper (fst m) \<in> set HTTP_METHODS) methods) = Inr os"
    unfolding path_operations_def seq_Inr_iff by auto
  from for_each_Inr_mem [OF fm os(2)] obtain me where
    me: "me \<in> set methods" "upper (fst me) \<in> set HTTP_METHODS"
        "extract_operation gp (fst e) (fst me) (snd me) = Inr op"
    by auto
  have "(fst e, snd e) \<in> set paths" "(fst me, snd me) \<in> set methods"
    using e(1) me(1) by simp_all
  with a m me(2) have "spec_entry oas gp (fst e) (fst me) (snd me)"
    unfolding spec_entry_def by blast
  with me(3) show ?thesis by blast
qed

lemma parameter_descriptor_Inr:
  "parameter_descriptor gp p0 = Inr d \<Longrightarrow> copies_parameter gp p0 d"
  unfolding parameter_descriptor_def copies_parameter_def seq_Inr_iff
  by (auto dest!: py_get_Inr)

lemma extract_operation_Inr:
  assumes "extract_operation gp path meth entry = Inr op"
  shows "\<exists>kvs ps. entry = PDict kvs
      \<and> PStr (op_name op) = py_or (get_or kvs ''operationId'' PNone) (PStr (meth @ ''_'' @ path))
      \<and> path_template op = path \<and> op_method op = upper meth
      \<and> py_iter (get_or kvs ''parameters'' (PList [])) = Inr ps
      \<and> for_each (parameter_descriptor gp) ps = Inr (parameters op)"
  using assms unfolding extract_operation_def seq_Inr_iff
  by (auto dest!: py_get_Inr as_str_Inr)

lemma iter_operations_optional_path: "iter_operations oas_optional_path = Inr [op_plant]"
  by code_simp

text \<open>
  Claim C6, as the code has it. Every operation that \<open>iter_operations\<close> returns comes
  from one entry of the specification, and its descriptors are, position by position,
  the copies of that entry's parameters: the location is the \<open>in\<close> of the (resolved)
  parameter object and the required flag is the truthiness of its \<open>required\<close> key,
  false when the key is absent. A path-located descriptor is required exactly when the
  specification marks the parameter so; the extractor forces nothing.
\<close>

theorem descriptors_copy_specification:
  assumes "iter_operations oas = Inr ops" and "op \<in> set ops"
  shows "\<exists>gp path meth entry ps.
           spec_entry oas gp path meth (PDict entry)
         \<and> path_template op = path \<and> op_method op = upper meth
         \<and> py_iter (get_or entry ''parameters'' (PList [])) = Inr ps
         \<and> list_all2 (copies_parameter gp) ps (parameters op)"
proof -
  from iter_operations_provenance [OF assms] obtain gp path meth e where
    e: "spec_entry oas gp path meth e" "extract_operation gp path meth e = Inr op"
    by blast
  from extract_operation_Inr [OF e(2)] obtain kvs ps where
    k: "e = PDict kvs" "path_template op = path" "op_method op = upper meth"
       "py_iter (get_or kvs ''parameters'' (PList [])) = Inr ps"
       "for_each (parameter_descriptor gp) ps = Inr (parameters op)"
    by blast
  have "list_all2 (copies_parameter gp) ps (parameters op)"
    using for_each_list_all2 [OF k(5)]
    by (rule list_all2_mono) (rule parameter_descriptor_Inr)
  with e(1) k show ?thesis by blast
qed

theorem descriptors_copy_specification_witness:
  "\<exists>gp path meth entry ps.
           spec_entry oas_optional_path gp path meth (PDict entry)
         \<and> path_template op_plant = path \<and> op_method op_plant = upper meth
         \<and> py_iter (get_or entry ''parameters'' (PList [])) = Inr ps
         \<and> list_all2 (copies_parameter gp) ps (parameters op_plant)"
  using descriptors_copy_specification [OF iter_operations_optional_path, of op_plant] by simp

text \<open>
  Claim C6 as stated fails: the path parameter \<open>plantId\<close> of \<open>oas_optional_path\<close> is
  marked \<open>"required": false\<close>, extraction succeeds, and the descriptor has location
  \<open>path\<close> and required \<open>False\<close>.
\<close>

theorem path_parameter_not_required_counterexample:
  "iter_operations oas_optional_path = Inr [op_plant]
   \<and> map (\<lambda>d. (get_or d ''in'' PNone, get_or d ''required'' PNone)) (parameters op_plant)
       = [(PStr ''path'', PBool False)]"
  by code_simp

subsection \<open>The registry\<close>

lemma get_register_operation:
  "get_operation (register_operation ts op) key =
     (if clean_name (op_name op) = key then Some op else get_operation ts key)"
  by (simp add: get_operation_def register_operation_def Let_def update_conv')

lemma get_foldl_register_snoc:
  "get_operation (foldl register_operation ts (xs @ [x])) key =
     (if clean_name (op_name x) = key then Some x
      else get_operation (foldl register_operation ts xs) key)"
  by (simp add: get_register_operation)

lemma get_foldl_register_last:
  assumes "\<forall>o' \<in> set post. clean_name (op_name o') \<noteq> clean_name (op_name op)"
  shows "get_operation (foldl register_operation ts (pre @ op # post)) (clean_name (op_name op))
           = Some op"
  using assms
proof (induction post rule: rev_induct)
  case Nil
  show ?case using get_foldl_register_snoc [of ts pre op] by simp
next
  case (snoc x xs)
  have "pre @ op # xs @ [x] = (pre @ op # xs) @ [x]" by simp
  then show ?case
    using snoc get_foldl_register_snoc [of ts "pre @ op # xs" x "clean_name (op_name op)"]
    by (simp del: foldl_append)
qed

lemma load_operations_Inr:
  "iter_operations oas = Inr ops \<Longrightarrow> load_operations ts (Inr oas) = foldl register_operation ts ops"
  by (simp add: load_operations_def)

lemma iter_operations_digit:
  "iter_operations oas_digit = Inr ([] @ op_resource ''123resource'' ''/a'' # [op_create_b])"
  by code_simp

lemma for_each_Inr_image:
  "for_each f xs = Inr ys \<Longrightarrow> x \<in> set xs \<Longrightarrow> \<exists>y \<in> set ys. f x = Inr y"
proof (induction xs arbitrary: ys)
  case Nil
  then show ?case by simp
next
  case (Cons a xs)
  from Cons.prems(1) obtain z zs where z: "f a = Inr z" and zs: "for_each f xs = Inr zs"
    and ys: "ys = z # zs"
    by (auto simp: seq_Inr_iff)
  show ?case
  proof (cases "x = a")
    case True
    with z ys show ?thesis by simp
  next
    case False
    with Cons.prems(2) have "x \<in> set xs" by simp
    from Cons.IH [OF zs this] ys show ?thesis by auto
  qed
qed

lemma iter_operations_covers:
  assumes "iter_operations oas = Inr ops" and "spec_entry oas gp path meth entry"
  shows "\<exists>op \<in> set ops. extract_operation gp path meth entry = Inr op"
proof -
  from assms(2) obtain paths0 components paths methods0 methods where
    a: "py_get oas ''paths'' (PDict []) = Inr paths0"
       "py_get oas ''components'' (PDict []) = Inr components"
       "py_get components ''parameters'' (PDict []) = Inr gp"
       "py_items (py_or paths0 (PDict [])) = Inr paths"
    and pm: "(path, methods0) \<in> set paths" "py_items methods0 = Inr methods"
       "(meth, entry) \<in> set methods" "upper meth \<in> set HTTP_METHODS"
    unfolding spec_entry_def by blast
  from assms(1) a obtain opss where
    fe: "for_each (path_operations gp) paths = Inr opss" and ops: "ops = concat opss"
    unfolding iter_operations_def by (auto simp: seq_Inr_iff)
  from for_each_Inr_image [OF fe pm(1)] obtain os where
    os: "os \<in> set opss" "path_operations gp (path, methods0) = Inr os" by blast
  from os(2) pm(2) have fm:
    "for_each (\<lambda>m. extract_operation gp path (fst m) (snd m))
       (filter (\<lambda>m. upper (fst m) \<in> set HTTP_METHODS) methods) = Inr os"
    unfolding path_operations_def by simp
  have "(meth, entry) \<in> set (filter (\<lambda>m. upper (fst m) \<in> set HTTP_METHODS) methods)"
    using pm(3,4) by simp
  from for_each_Inr_image [OF fm this] obtain op where
    "op \<in> set os" "extract_operation gp path meth entry = Inr op" by auto
  with os(1) ops show ?thesis by auto
qed

lemma get_foldl_register_some:
  "op \<in> set ops \<Longrightarrow>
     \<exists>op' \<in> set ops. clean_name (op_name op') = clean_name (op_name op)
        \<and> get_operation (foldl register_operation ts ops) (clean_name (op_name op)) = Some op'"
proof (induction ops rule: rev_induct)
  case Nil
  then show ?case by simp
next
  case (snoc x xs)
  show ?case
  proof (cases "clean_name (op_name x) = clean_name (op_name op)")
    case True
    then show ?thesis
      using get_foldl_register_snoc [of ts xs x "clean_name (op_name op)"]
      by (intro bexI [of _ x]) simp_all
  next
    case False
    with snoc.prems have "op \<in> set xs" by auto
    from snoc.IH [OF this] obtain op' where
      "op' \<in> set xs" "clean_name (op_name op') = clean_name (op_name op)"
      "get_operation (foldl register_operation ts xs) (clean_name (op_name op)) = Some op'"
      by blast
    with False show ?thesis
      using get_foldl_register_snoc [of ts xs x "clean_name (op_name op)"]
      by (intro bexI [of _ op']) simp_all
  qed
qed

lemma spec_entry_digit_b:
  "spec_entry oas_digit (PDict []) ''/b'' ''post'' (PDict [(''summary'', PStr ''Create b'')])"
proof -
  have u: "upper ''post'' \<in> set HTTP_METHODS"
    by code_simp
  have "py_get oas_digit ''paths'' (PDict [])
          = Inr (PDict [(''/a'', PDict [(''get'', PDict [(''operationId'', PStr ''123resource'')])]),
                        (''/b'', PDict [(''post'', PDict [(''summary'', PStr ''Create b'')])])])
      \<and> py_get oas_digit ''components'' (PDict []) = Inr (PDict [])
      \<and> py_get (PDict []) ''parameters'' (PDict []) = Inr (PDict [])
      \<and> py_items (py_or (PDict [(''/a'', PDict [(''get'', PDict [(''operationId'', PStr ''123resource'')])]),
                        (''/b'', PDict [(''post'', PDict [(''summary'', PStr ''Create b'')])])]) (PDict []))
          = Inr [(''/a'', PDict [(''get'', PDict [(''operationId'', PStr ''123resource'')])]),
                 (''/b'', PDict [(''post'', PDict [(''summary'', PStr ''Create b'')])])]
      \<and> (''/b'', PDict [(''post'', PDict [(''summary'', PStr ''Create b'')])])
          \<in> set [(''/a'', PDict [(''get'', PDict [(''operationId'', PStr ''123resource'')])]),
                 (''/b'', PDict [(''post'', PDict [(''summary'', PStr ''Create b'')])])]
      \<and> py_items (PDict [(''post'', PDict [(''summary'', PStr ''Create b'')])])
          = Inr [(''post'', PDict [(''summary'', PStr ''Create b'')])]
      \<and> (''post'', PDict [(''summary'', PStr ''Create b'')])
          \<in> set [(''post'', PDict [(''summary'', PStr ''Create b'')])]"
    by (simp add: oas_digit_def get_or_def py_or_def)
  with u show ?thesis
    unfolding spec_entry_def by blast
qed

text \<open>
  Claim C7, as the code has it. Every method entry that \<open>iter_operations\<close> keeps
  yields an operation, and every operation comes from such an entry: its name is the
  entry's \<open>operationId\<close> when that is truthy (a non-empty str) and the method key, an
  underscore and the path otherwise. The registry key is \<open>_clean_name\<close> of the name:
  \<open>param_\<close> is put before a name that starts with a digit, any other name is the key
  itself. Looking the key up always returns an operation with that key; it returns the
  operation itself when no operation extracted after it has the same key.
\<close>

theorem operation_name_and_round_trip:
  assumes "iter_operations oas = Inr ops"
  shows "(spec_entry oas gp path meth entry \<longrightarrow>
            (\<exists>op \<in> set ops. \<exists>kvs. entry = PDict kvs
               \<and> path_template op = path \<and> op_method op = upper meth
               \<and> PStr (op_name op)
                   = py_or (get_or kvs ''operationId'' PNone) (PStr (meth @ ''_'' @ path))))
       \<and> (op \<in> set ops \<longrightarrow>
            (\<exists>gp path meth kvs. spec_entry oas gp path meth (PDict kvs)
               \<and> path_template op = path \<and> op_method op = upper meth
               \<and> PStr (op_name op)
                   = py_or (get_or kvs ''operationId'' PNone) (PStr (meth @ ''_'' @ path)))
            \<and> clean_name (op_name op)
                = (if op_name op \<noteq> [] \<and> hd (op_name op) \<in> set ''0123456789''
                   then ''param_'' @ op_name op else op_name op)
            \<and> (\<exists>op' \<in> set ops. clean_name (op_name op') = clean_name (op_name op)
                  \<and> get_operation (new_toolset (Inr oas)) (clean_name (op_name op)) = Some op'))
       \<and> (ops = pre @ op # post
            \<and> (\<forall>o' \<in> set post. clean_name (op_name o') \<noteq> clean_name (op_name op))
            \<longrightarrow> get_operation (new_toolset (Inr oas)) (clean_name (op_name op)) = Some op)"
proof -
  have reg: "new_toolset (Inr oas) = foldl register_operation empty_toolset ops"
    unfolding new_toolset_def by (rule load_operations_Inr [OF assms])
  have forward: "\<exists>op \<in> set ops. \<exists>kvs. entry = PDict kvs
               \<and> path_template op = path \<and> op_method op = upper meth
               \<and> PStr (op_name op)
                   = py_or (get_or kvs ''operationId'' PNone) (PStr (meth @ ''_'' @ path))"
    if "spec_entry oas gp path meth entry"
  proof -
    from iter_operations_covers [OF assms that] obtain op where
      op: "op \<in> set ops" "extract_operation gp path meth entry = Inr op" by blast
    from extract_operation_Inr [OF op(2)] op(1) show ?thesis by blast
  qed
  have backward: "\<exists>gp path meth kvs. spec_entry oas gp path meth (PDict kvs)
               \<and> path_template op = path \<and> op_method op = upper meth
               \<and> PStr (op_name op)
                   = py_or (get_or kvs ''operationId'' PNone) (PStr (meth @ ''_'' @ path))"
    if "op \<in> set ops"
  proof -
    from iter_operations_provenance [OF assms that] obtain gp path meth e where
      e: "spec_entry oas gp path meth e" "extract_operation gp path meth e = Inr op"
      by blast
    from extract_operation_Inr [OF e(2)] e(1) show ?thesis by blast
  qed
  have key: "clean_name (op_name op)
                = (if op_name op \<noteq> [] \<and> hd (op_name op) \<in> set ''0123456789''
                   then ''param_'' @ op_name op else op_name op)"
    by (simp add: clean_name_def)
  have some: "\<exists>op' \<in> set ops. clean_name (op_name op') = clean_name (op_name op)
      \<and> get_operation (new_toolset (Inr oas)) (clean_name (op_name op)) = Some op'"
    if "op \<in> set ops"
    unfolding reg using that by (rule get_foldl_register_some)
  have last: "get_operation (new_toolset (Inr oas)) (clean_name (op_name op)) = Some op"
    if "ops = pre @ op # post"
      "\<forall>o' \<in> set post. clean_name (op_name o') \<noteq> clean_name (op_name op)"
    unfolding reg that(1) by (rule get_foldl_register_last [OF that(2)])
  show ?thesis
    using forward backward key some last by blast
qed

theorem operation_name_and_round_trip_witness:
  "(\<exists>op \<in> set [op_resource ''123resource'' ''/a'', op_create_b].
      \<exists>kvs. PDict [(''summary'', PStr ''Create b'')] = PDict kvs
        \<and> path_template op = ''/b'' \<and> op_method op = upper ''post''
        \<and> PStr (op_name op)
            = py_or (get_or kvs ''operationId'' PNone) (PStr (''post'' @ ''_'' @ ''/b'')))
   \<and> clean_name ''123resource'' = ''param_123resource''
   \<and> get_operation (new_toolset (Inr oas_digit)) ''param_123resource''
       = Some (op_resource ''123resource'' ''/a'')"
proof -
  have ops: "iter_operations oas_digit = Inr [op_resource ''123resource'' ''/a'', op_create_b]"
    using iter_operations_digit by simp
  have split: "[op_resource ''123resource'' ''/a'', op_create_b]
      = [] @ op_resource ''123resource'' ''/a'' # [op_create_b]"
    by simp
  have other: "\<forall>o' \<in> set [op_create_b].
      clean_name (op_name o') \<noteq> clean_name (op_name (op_resource ''123resource'' ''/a''))"
    by (simp add: op_create_b_def op_resource_def clean_name_def)
  have nm: "op_name (op_resource ''123resource'' ''/a'') = ''123resource''"
    by (simp add: op_resource_def)
  have cl: "clean_name ''123resource'' = ''param_123resource''"
    by (simp add: clean_name_def)
  show ?thesis
    using operation_name_and_round_trip [OF ops, of "PDict []" "''/b''" "''post''"
        "PDict [(''summary'', PStr ''Create b'')]" "op_resource ''123resource'' ''/a''"
        "[]" "[op_create_b]"]
      spec_entry_digit_b split other
    unfolding nm cl by blast
qed

text \<open>
  Claim C7 as stated fails: the entries of \<open>oas_colliding\<close> have the identifiers
  \<open>123resource\<close> and \<open>param_123resource\<close>. Both operations get the key
  \<open>param_123resource\<close>, and looking it up returns the second operation, not the first.
\<close>

theorem registry_round_trip_counterexample:
  "iter_operations oas_colliding
     = Inr [op_resource ''123resource'' ''/a'', op_resource ''param_123resource'' ''/b'']
   \<and> clean_name (op_name (op_resource ''123resource'' ''/a'')) = ''param_123resource''
   \<and> get_operation (new_toolset (Inr oas_colliding))
         (clean_name (op_name (op_resource ''123resource'' ''/a'')))
       = Some (op_resource ''param_123resource'' ''/b'')
   \<and> op_resource ''param_123resource'' ''/b'' \<noteq> op_resource ''123resource'' ''/a''"
  by code_simp

text \<open>
  Claim C8. When reading the specification raises, or extraction raises on what was
  read, \<open>_load_operations\<close> leaves both dicts empty whatever they held: no operation,
  no name, a count of zero, and every lookup fails.
\<close>

theorem load_failure_leaves_empty:
  assumes "loaded = Inl e \<or> (\<exists>oas. loaded = Inr oas \<and> iter_operations oas = Inl e)"
  shows "operations_by_name (load_operations ts loaded) = []
       \<and> registry (load_operations ts loaded) = []
       \<and> length (operations_by_name (load_operations ts loaded)) = 0
       \<and> get_operation (load_operations ts loaded) tool_name = None"
proof -
  from assms have "seq loaded iter_operations = Inl e"
    by (auto simp: seq_Inl_iff)
  then show ?thesis
    by (simp add: load_operations_def get_operation_def)
qed

lemma iter_operations_broken: "iter_operations oas_broken = Inl AttributeError"
  by code_simp

theorem load_failure_leaves_empty_witness:
  "operations_by_name (load_operations (new_toolset (Inr oas_digit)) (Inl (OSError ''avathon_OAS.json''))) = []
   \<and> registry (load_operations (new_toolset (Inr oas_digit)) (Inl (OSError ''avathon_OAS.json''))) = []
   \<and> iter_operations oas_broken = Inl AttributeError
   \<and> operations_by_name (new_toolset (Inr oas_broken)) = []
   \<and> registry (new_toolset (Inr oas_broken)) = []
   \<and> length (operations_by_name (new_toolset (Inr oas_broken))) = 0
   \<and> get_operation (new_toolset (Inr oas_broken)) ''listA'' = None"
proof -
  have a: "Inl (OSError ''avathon_OAS.json'') = Inl (OSError ''avathon_OAS.json'')
      \<or> (\<exists>oas. Inl (OSError ''avathon_OAS.json'') = Inr oas
            \<and> iter_operations oas = Inl (OSError ''avathon_OAS.json''))"
    by simp
  have b: "Inr oas_broken = Inl AttributeError
      \<or> (\<exists>oas. Inr oas_broken = Inr oas \<and> iter_operations oas = Inl AttributeError)"
    using iter_operations_broken by simp
  show ?thesis
    using load_failure_leaves_empty [OF a, of "new_toolset (Inr oas_digit)"]
      load_failure_leaves_empty [OF b, of empty_toolset "''listA''"]
      iter_operations_broken
    unfolding new_toolset_def by simp
qed

subsection \<open>The pagination hint of the input schema\<close>

lemma map_of_foldl_update_None:
  "map_of (foldl (\<lambda>fields e. AList.update (fst e) (snd e) fields) al es) k = None
     \<longleftrightarrow> map_of al k = None \<and> k \<notin> fst ` set es"
  by (induction es arbitrary: al) (auto simp: update_conv')

lemma py_clean_name_Inr: "py_clean_name v = Inr key \<Longrightarrow> \<exists>s. v = PStr s \<and> key = clean_name s"
  by (cases v) auto

lemma parameter_field_Inr:
  "parameter_field p = Inr (key, f) \<Longrightarrow> \<exists>s. get_or p ''name'' PNone = PStr s \<and> key = clean_name s"
  unfolding parameter_field_def Let_def seq_Inr_iff
  by (auto dest!: py_clean_name_Inr)

lemma clean_name_include_all: "clean_name s = ''include_all'' \<Longrightarrow> s = ''include_all''"
  by (auto simp: clean_name_def split: if_splits)

lemma pagination_hint_iff:
  "pagination_hint op \<longleftrightarrow>
     PStr ''page'' \<in> param_names op \<or> PStr ''per_page'' \<in> param_names op
       \<or> PStr ''cursor'' \<in> param_names op"
  by (auto simp: pagination_hint_def)

text \<open>
  Claim C9, as the code has it. The test is an intersection: the hint is added when the
  declared parameter names include \<open>page\<close> or \<open>per_page\<close> or \<open>cursor\<close>. Then the field
  \<open>include_all\<close> of the schema is the optional boolean with default \<open>False\<close>; without
  the hint, and with no declared parameter of that name, the schema has no field
  \<open>include_all\<close>.
\<close>

theorem include_all_field_presence:
  assumes "build_input_model_from_operation create_model op = Inr (model_name, flds)"
  shows "(pagination_hint op \<longleftrightarrow>
            PStr ''page'' \<in> param_names op \<or> PStr ''per_page'' \<in> param_names op
              \<or> PStr ''cursor'' \<in> param_names op)
       \<and> (pagination_hint op \<longrightarrow> map_of flds ''include_all'' = Some include_all_field)
       \<and> (\<not> pagination_hint op \<and> PStr ''include_all'' \<notin> param_names op
             \<longrightarrow> map_of flds ''include_all'' = None)"
proof -
  from assms obtain entries where
    en: "for_each parameter_field (parameters op) = Inr entries"
    and f: "flds =
      (let fields0 = foldl (\<lambda>fs e. AList.update (fst e) (snd e) fs) [] entries;
           fields1 = (if request_body_schema op \<noteq> None
                      then AList.update ''body'' body_field fields0 else fields0);
           fields2 = AList.update ''extra_headers'' extra_headers_field fields1;
           fields3 = (if pagination_hint op
                      then AList.update ''include_all'' include_all_field fields2 else fields2)
       in fields3)"
    unfolding build_input_model_from_operation_def seq_Inr_iff Let_def
    by (auto split: option.splits)
  have hint: "map_of flds ''include_all'' = Some include_all_field" if "pagination_hint op"
    using that f by (simp add: Let_def update_conv')
  have none: "map_of flds ''include_all'' = None"
    if nh: "\<not> pagination_hint op" and nn: "PStr ''include_all'' \<notin> param_names op"
  proof -
    have "''include_all'' \<notin> fst ` set entries"
    proof
      assume "''include_all'' \<in> fst ` set entries"
      then obtain fi where "(''include_all'', fi) \<in> set entries" by auto
      from for_each_Inr_mem [OF en this] obtain p where
        p: "p \<in> set (parameters op)" "parameter_field p = Inr (''include_all'', fi)"
        by auto
      from parameter_field_Inr [OF p(2)] obtain s where
        "get_or p ''name'' PNone = PStr s" "''include_all'' = clean_name s" by auto
      then have "get_or p ''name'' PNone = PStr ''include_all''"
        using clean_name_include_all [of s] by simp
      with p(1) have "PStr ''include_all'' \<in> param_names op"
        by (force simp: param_names_def)
      with nn show False by simp
    qed
    then have "map_of (foldl (\<lambda>fs e. AList.update (fst e) (snd e) fs) [] entries)
        ''include_all'' = None"
      by (simp add: map_of_foldl_update_None)
    with nh f show ?thesis
      by (simp add: Let_def update_conv')
  qed
  show ?thesis
    using hint none pagination_hint_iff by blast
qed

lemma build_paged: "build_input_model_from_operation refuses_underscore op_paged = Inr (''alarms_Input'', fields_paged)"
  by code_simp

theorem include_all_field_presence_witness:
  "pagination_hint op_paged
   \<and> map_of fields_paged ''include_all'' = Some include_all_field
   \<and> \<not> pagination_hint op_plant
   \<and> map_of [(''plantId'', \<lparr>field_type = TOptional TInt, field_default = Default PNone,
          field_description = ''[path] Plant id''\<rparr>), (''extra_headers'', extra_headers_field)]
        ''include_all'' = None"
proof -
  have plant: "build_input_model_from_operation refuses_underscore op_plant = Inr (''plant_Input'',
      [(''plantId'', \<lparr>field_type = TOptional TInt, field_default = Default PNone,
          field_description = ''[path] Plant id''\<rparr>), (''extra_headers'', extra_headers_field)])"
    by code_simp
  have p1: "PStr ''page'' \<in> param_names op_paged"
    by code_simp
  have p2: "PStr ''page'' \<notin> param_names op_plant \<and> PStr ''per_page'' \<notin> param_names op_plant
      \<and> PStr ''cursor'' \<notin> param_names op_plant \<and> PStr ''include_all'' \<notin> param_names op_plant"
    by code_simp
  show ?thesis
    using include_all_field_presence [OF build_paged] include_all_field_presence [OF plant] p1 p2
    by blast
qed

text \<open>
  Claim C9 as stated fails: \<open>op_paged\<close> declares \<open>page\<close> and neither \<open>per_page\<close> nor
  \<open>cursor\<close>, and its schema has the field \<open>include_all\<close>.
\<close>

theorem include_all_counterexample:
  "build_input_model_from_operation refuses_underscore op_paged = Inr (''alarms_Input'', fields_paged)
   \<and> map_of fields_paged ''include_all'' = Some include_all_field
   \<and> PStr ''per_page'' \<notin> param_names op_paged
   \<and> PStr ''cursor'' \<notin> param_names op_paged"
  by code_simp

section \<open>Properties of the tool function\<close>

lemma sublist_join: "n \<in> set xs \<Longrightarrow> sublist n (join sep xs)"
proof (induction sep xs rule: join.induct)
  case (1 sep)
  then show ?case by simp
next
  case (2 sep x)
  then show ?case by simp
next
  case (3 sep x y ys)
  show ?case
  proof (cases "n = x")
    case True
    then show ?thesis by (simp add: sublist_append_rightI)
  next
    case False
    with 3 have "sublist n (join sep (y # ys))" by simp
    then show ?thesis by (simp add: sublist_append)
  qed
qed

text \<open>
  Claim C2, as the code has it. The substitution reads the whole flattened input, and
  what it misses are the placeholders of the path template. When the client is there
  and some placeholder of the template has no value under its own name, the call fails
  with the error for missing path parameters, its message holds every missing
  placeholder name, and no request reaches the transport.
\<close>

theorem missing_placeholder_fails_fast:
  assumes "p \<in> set (extract_parameters (path_template op))"
    and "\<not> has_value (map_of (model_dump_exclude_none input_data)) False p"
    and "missing = snd (substitute_parameters (path_template op)
                          (map_of (model_dump_exclude_none input_data)) False)"
  shows "tool_func op (Inr send) input_data = (Inl (MissingPathParameter missing), [])
       \<and> name p \<in> set missing
       \<and> set missing = name ` {q \<in> set (extract_parameters (path_template op)).
            \<not> has_value (map_of (model_dump_exclude_none input_data)) False q}
       \<and> (\<forall>n \<in> set missing. sublist n (retry_message exc_text (MissingPathParameter missing)))"
proof -
  have m: "set missing = name ` {q \<in> set (extract_parameters (path_template op)).
            \<not> has_value (map_of (model_dump_exclude_none input_data)) False q}"
    unfolding assms(3) by (simp add: substitute_parameters_def foldl_substitute_step)
  with assms(1,2) have inm: "name p \<in> set missing" by blast
  then have ne: "missing \<noteq> []" by auto
  have run: "tool_func op (Inr send) input_data = (Inl (MissingPathParameter missing), [])"
    using ne unfolding assms(3) by (simp add: tool_func_def Let_def)
  have msg: "sublist n (retry_message exc_text (MissingPathParameter missing))"
    if "n \<in> set missing" for n
  proof -
    have a: "sublist n (join '', '' missing)" using that by (rule sublist_join)
    have b: "sublist (join '', '' missing) (P @ join '', '' missing @ S)" for P S :: string
      by (rule sublist_appendI)
    show ?thesis
      unfolding retry_message.simps by (rule sublist_order.order_trans [OF a b])
  qed
  show ?thesis using run inm m msg by blast
qed

theorem missing_placeholder_fails_fast_witness:
  "tool_func op_plant (Inr transport_ok) [(''plantId'', PNone), (''extra_headers'', PNone)]
     = (Inl (MissingPathParameter [''plantId'']), [])
   \<and> sublist ''plantId'' (retry_message (\<lambda>e. []) (MissingPathParameter [''plantId'']))"
proof -
  have tok: "\<lparr>name = ''plantId'', original_format = ''{plantId}'', position = 7\<rparr>
      \<in> set (extract_parameters (path_template op_plant))"
    by code_simp
  have nv: "\<not> has_value
      (map_of (model_dump_exclude_none [(''plantId'', PNone), (''extra_headers'', PNone)])) False
      \<lparr>name = ''plantId'', original_format = ''{plantId}'', position = 7\<rparr>"
    by code_simp
  have m: "[''plantId''] = snd (substitute_parameters (path_template op_plant)
      (map_of (model_dump_exclude_none [(''plantId'', PNone), (''extra_headers'', PNone)])) False)"
    by code_simp
  show ?thesis
    using missing_placeholder_fails_fast [OF tok nv m, of transport_ok "\<lambda>e. []"] by simp
qed

text \<open>
  Claim C2 as stated fails. With no client (\<open>get_avathon_client\<close> raises when no API
  key is set), a call of \<open>op_plant\<close> that lacks \<open>plantId\<close> fails as a failed tool
  execution, not for the missing path parameter. \<open>op_items\<close> declares the path-location
  parameter \<open>item_id\<close>, which the input lacks; the call succeeds and a request is sent.
  And \<open>op_items_query\<close> has no path-location parameter, so a mapping restricted to such
  names is empty; the path is filled all the same, with the value of the query
  parameter \<open>id\<close>.
\<close>

theorem path_location_parameter_absent_counterexample:
  "tool_func op_plant (Inl ValueError) [(''plantId'', PNone)]
     = (Inl (ToolExecutionFailed ''plant'' ValueError), [])
   \<and> map_of (model_dump_exclude_none [(''id'', PInt 7), (''item_id'', PNone)]) ''item_id'' = None
   \<and> map (\<lambda>d. (get_or d ''name'' PNone, get_or d ''in'' PNone)) (parameters op_items)
       = [(PStr ''id'', PStr ''path''), (PStr ''item_id'', PStr ''path'')]
   \<and> tool_func op_items (Inr transport_ok) [(''id'', PInt 7), (''item_id'', PNone)]
       = (Inr (PDict []),
          [\<lparr>req_method = ''GET'', req_path = ''/items/7'', req_params = None,
            req_json_body = PNone, req_headers = None\<rparr>])
   \<and> map (\<lambda>d. (get_or d ''name'' PNone, get_or d ''in'' PNone)) (parameters op_items_query)
       = [(PStr ''id'', PStr ''query'')]
   \<and> tool_func op_items_query (Inr transport_ok) [(''id'', PInt 7)]
       = (Inr (PDict []),
          [\<lparr>req_method = ''GET'', req_path = ''/items/7'',
            req_params = Some [(''id'', PInt 7)], req_json_body = PNone,
            req_headers = None\<rparr>])"
  by code_simp

text \<open>
  Claim C5. When a request was handed to the transport and the answer to it is a
  response with status 401, the outcome is the authentication failure, whose message
  asks to check the API key; it is none of the unclassified failures.
\<close>

theorem status_401_is_authentication_failure:
  assumes "snd (tool_func op (Inr send) input_data) = [req]"
    and "send req = Inr resp"
    and "status_code resp = 401"
  shows "fst (tool_func op (Inr send) input_data) = Inl AuthenticationFailure
       \<and> \<not> unclassified AuthenticationFailure
       \<and> retry_message exc_text AuthenticationFailure
           = ''Authentication failed (401). Please check your AVATHON_API_KEY.''"
  using assms
  by (auto simp: tool_func_def Let_def raise_for_status_def
           split: if_splits sum.splits option.splits)

theorem status_401_is_authentication_failure_witness:
  "fst (tool_func op_plant (Inr transport_401) [(''plantId'', PInt 123)])
     = Inl AuthenticationFailure"
proof -
  have sent: "snd (tool_func op_plant (Inr transport_401) [(''plantId'', PInt 123)])
      = [\<lparr>req_method = ''GET'', req_path = ''/Plant/123'', req_params = None,
           req_json_body = PNone, req_headers = None\<rparr>]"
    by code_simp
  have answer: "transport_401 \<lparr>req_method = ''GET'', req_path = ''/Plant/123'',
      req_params = None, req_json_body = PNone, req_headers = None\<rparr>
      = Inr \<lparr>status_code = 401, json_result = None, text_body = []\<rparr>"
    by (simp add: transport_401_def)
  have st: "status_code \<lparr>status_code = 401, json_result = None, text_body = []\<rparr> = 401"
    by simp
  show ?thesis
    using status_401_is_authentication_failure [OF sent answer st] by simp
qed

end
